theory Spec2Isabelle
  imports Complex_Main
begin

section \<open>Floating-point values\<close>

text \<open>
  The chart engine computes on NumPy \<open>float64\<close> arrays. A cell is modelled as a real
  number or one of the three IEEE special values. Arithmetic on finite cells is exact
  real arithmetic: rounding, overflow and the sign of zero are abstracted away. The
  special values follow IEEE 754: \<open>NaN\<close> is absorbing, every ordered comparison with
  \<open>NaN\<close> is false, a non-zero number divided by zero is an infinity, and \<open>0/0\<close>,
  \<open>inf - inf\<close> and \<open>0 * inf\<close> are \<open>NaN\<close>.
\<close>

datatype fl = Num real | PInf | NInf | NaN

fun isnan :: "fl \<Rightarrow> bool" where
  "isnan NaN = True"
| "isnan _ = False"

fun isfinite :: "fl \<Rightarrow> bool" where
  "isfinite (Num _) = True"
| "isfinite _ = False"

fun fneg :: "fl \<Rightarrow> fl" where
  "fneg (Num x) = Num (- x)"
| "fneg PInf = NInf"
| "fneg NInf = PInf"
| "fneg NaN = NaN"

fun fabs :: "fl \<Rightarrow> fl" where
  "fabs (Num x) = Num \<bar>x\<bar>"
| "fabs PInf = PInf"
| "fabs NInf = PInf"
| "fabs NaN = NaN"

fun fadd :: "fl \<Rightarrow> fl \<Rightarrow> fl" where
  "fadd (Num x) (Num y) = Num (x + y)"
| "fadd (Num x) PInf = PInf"
| "fadd (Num x) NInf = NInf"
| "fadd PInf (Num y) = PInf"
| "fadd NInf (Num y) = NInf"
| "fadd PInf PInf = PInf"
| "fadd NInf NInf = NInf"
| "fadd _ _ = NaN"

definition fsub :: "fl \<Rightarrow> fl \<Rightarrow> fl" where
  "fsub a b = fadd a (fneg b)"

text \<open>The sign of a cell: \<open>1\<close>, \<open>-1\<close>, or \<open>0\<close> for zero and for \<open>NaN\<close>.\<close>

fun fsgn :: "fl \<Rightarrow> int" where
  "fsgn (Num x) = (if x > 0 then 1 else if x < 0 then - 1 else 0)"
| "fsgn PInf = 1"
| "fsgn NInf = - 1"
| "fsgn NaN = 0"

definition inf_of_sign :: "int \<Rightarrow> fl" where
  "inf_of_sign s = (if s > 0 then PInf else if s < 0 then NInf else NaN)"

fun fmul :: "fl \<Rightarrow> fl \<Rightarrow> fl" where
  "fmul (Num x) (Num y) = Num (x * y)"
| "fmul a b = (if isnan a \<or> isnan b then NaN else inf_of_sign (fsgn a * fsgn b))"

fun fdiv :: "fl \<Rightarrow> fl \<Rightarrow> fl" where
  "fdiv (Num x) (Num y) = (if y \<noteq> 0 then Num (x / y) else inf_of_sign (fsgn (Num x)))"
| "fdiv (Num x) PInf = Num 0"
| "fdiv (Num x) NInf = Num 0"
| "fdiv PInf (Num y) = (if y < 0 then NInf else PInf)"
| "fdiv NInf (Num y) = (if y < 0 then PInf else NInf)"
| "fdiv _ _ = NaN"

text \<open>The comparisons \<open><\<close>, \<open>>\<close>, \<open>==\<close> and \<open>!=\<close> of two floats.\<close>

fun flt :: "fl \<Rightarrow> fl \<Rightarrow> bool" where
  "flt (Num x) (Num y) = (x < y)"
| "flt (Num x) PInf = True"
| "flt NInf (Num y) = True"
| "flt NInf PInf = True"
| "flt _ _ = False"

definition fgt :: "fl \<Rightarrow> fl \<Rightarrow> bool" where
  "fgt a b = flt b a"

definition feq :: "fl \<Rightarrow> fl \<Rightarrow> bool" where
  "feq a b = (\<not> isnan a \<and> a = b)"

definition fne :: "fl \<Rightarrow> fl \<Rightarrow> bool" where
  "fne a b = (\<not> feq a b)"

definition fl_of_int :: "int \<Rightarrow> fl" where
  "fl_of_int i = Num (of_int i)"

text \<open>
  \<open>np.maximum\<close> and \<open>np.minimum\<close> propagate \<open>NaN\<close>; Python's built-in \<open>max(a, b)\<close>
  and \<open>min(a, b)\<close> keep the first argument unless the second compares strictly
  beyond it.
\<close>

definition np_maximum :: "fl \<Rightarrow> fl \<Rightarrow> fl" where
  "np_maximum a b = (if isnan a \<or> isnan b then NaN else if flt a b then b else a)"

definition np_minimum :: "fl \<Rightarrow> fl \<Rightarrow> fl" where
  "np_minimum a b = (if isnan a \<or> isnan b then NaN else if flt b a then b else a)"

definition py_max :: "fl \<Rightarrow> fl \<Rightarrow> fl" where
  "py_max a b = (if fgt b a then b else a)"

definition py_min :: "fl \<Rightarrow> fl \<Rightarrow> fl" where
  "py_min a b = (if flt b a then b else a)"

section \<open>Exceptions, indexing, slices and loops\<close>

datatype error = ValueError | IndexError | KeyError

definition bindE :: "error + 'a \<Rightarrow> ('a \<Rightarrow> error + 'b) \<Rightarrow> error + 'b" where
  "bindE m f = (case m of Inl e \<Rightarrow> Inl e | Inr x \<Rightarrow> f x)"

text \<open>
  \<open>a[i]\<close> on an array of length \<open>n\<close>: a negative index counts from the end, an index
  outside \<open>-n .. n-1\<close> raises \<open>IndexError\<close>.
\<close>

definition py_index :: "nat \<Rightarrow> int \<Rightarrow> error + nat" where
  "py_index n i =
     (if 0 \<le> i \<and> i < int n then Inr (nat i)
      else if - int n \<le> i \<and> i < 0 then Inr (nat (int n + i))
      else Inl IndexError)"

definition py_get :: "'a list \<Rightarrow> int \<Rightarrow> error + 'a" where
  "py_get xs i = bindE (py_index (length xs) i) (\<lambda>k. Inr (xs ! k))"

definition py_set :: "'a list \<Rightarrow> int \<Rightarrow> 'a \<Rightarrow> error + 'a list" where
  "py_set xs i v = bindE (py_index (length xs) i) (\<lambda>k. Inr (xs[k := v]))"

text \<open>
  \<open>a[lo:hi]\<close>: each bound is taken from the end when negative and clamped to
  \<open>0 .. n\<close>; the slice is empty when the bounds cross. Slicing never raises.
\<close>

definition slice_bound :: "nat \<Rightarrow> int \<Rightarrow> nat" where
  "slice_bound n i = (if i < 0 then nat (max 0 (int n + i)) else min n (nat i))"

definition py_slice :: "'a list \<Rightarrow> int \<Rightarrow> int \<Rightarrow> 'a list" where
  "py_slice xs lo hi =
     (let n = length xs; l = slice_bound n lo; h = slice_bound n hi
      in take (h - l) (drop l xs))"

definition py_slice_to :: "'a list \<Rightarrow> int \<Rightarrow> 'a list" where
  "py_slice_to xs hi = take (slice_bound (length xs) hi) xs"

definition py_slice_from :: "'a list \<Rightarrow> int \<Rightarrow> 'a list" where
  "py_slice_from xs lo = drop (slice_bound (length xs) lo) xs"

text \<open>\<open>range(a, b)\<close> and the \<open>for\<close> loop over it, threading the loop's variables.\<close>

definition py_range :: "int \<Rightarrow> int \<Rightarrow> int list" where
  "py_range a b = [a..b - 1]"

fun for_each :: "'i list \<Rightarrow> ('i \<Rightarrow> 's \<Rightarrow> error + 's) \<Rightarrow> 's \<Rightarrow> error + 's" where
  "for_each [] body s = Inr s"
| "for_each (i # is) body s = bindE (body i s) (for_each is body)"

definition len :: "'a list \<Rightarrow> int" where
  "len xs = int (length xs)"

section \<open>NumPy array operations\<close>

definition zeros_like :: "fl list \<Rightarrow> fl list" where
  "zeros_like xs = replicate (length xs) (Num 0)"

text \<open>
  An elementwise operation on two one-dimensional arrays broadcasts an array of
  length one and raises \<open>ValueError\<close> on any other length mismatch.
\<close>

definition np_binop :: "(fl \<Rightarrow> fl \<Rightarrow> fl) \<Rightarrow> fl list \<Rightarrow> fl list \<Rightarrow> error + fl list" where
  "np_binop f xs ys =
     (if length xs = length ys then Inr (map2 f xs ys)
      else if length xs = 1 then Inr (map (f (hd xs)) ys)
      else if length ys = 1 then Inr (map (\<lambda>x. f x (hd ys)) xs)
      else Inl ValueError)"

definition np_sum :: "fl list \<Rightarrow> fl" where
  "np_sum xs = fold (\<lambda>x acc. fadd acc x) xs (Num 0)"

text \<open>\<open>np.mean\<close> of an empty array is \<open>0/0 = NaN\<close> (with a warning, not an exception).\<close>

definition np_mean :: "fl list \<Rightarrow> fl" where
  "np_mean xs = fdiv (np_sum xs) (Num (real (length xs)))"

text \<open>\<open>np.max\<close> and \<open>np.min\<close> raise \<open>ValueError\<close> on an empty array.\<close>

fun np_max :: "fl list \<Rightarrow> error + fl" where
  "np_max [] = Inl ValueError"
| "np_max (x # xs) = Inr (fold (\<lambda>y m. np_maximum m y) xs x)"

fun np_min :: "fl list \<Rightarrow> error + fl" where
  "np_min [] = Inl ValueError"
| "np_min (x # xs) = Inr (fold (\<lambda>y m. np_minimum m y) xs x)"

fun cumsum_from :: "fl \<Rightarrow> fl list \<Rightarrow> fl list" where
  "cumsum_from acc [] = []"
| "cumsum_from acc (x # xs) = fadd acc x # cumsum_from (fadd acc x) xs"

definition np_cumsum :: "fl list \<Rightarrow> fl list" where
  "np_cumsum xs = cumsum_from (Num 0) xs"

text \<open>\<open>np.diff\<close>: the differences \<open>a[1:] - a[:-1]\<close>.\<close>

definition np_diff :: "fl list \<Rightarrow> fl list" where
  "np_diff xs = map2 fsub (tl xs) (butlast xs)"

section \<open>pandas window operations\<close>

text \<open>
  \<open>Series.rolling(window=w)\<close> with the default \<open>min_periods = w\<close>: a negative
  window raises \<open>ValueError\<close>; the statistic at index \<open>i\<close> is taken over the
  trailing \<open>w\<close> cells and is \<open>NaN\<close> while fewer than \<open>w\<close> cells are available,
  when the window holds a missing cell (pandas treats infinities as missing here),
  and when the window is empty.
\<close>

definition rolling_window :: "fl list \<Rightarrow> nat \<Rightarrow> nat \<Rightarrow> fl list option" where
  "rolling_window xs w i =
     (if w = 0 \<or> i + 1 < w then None else Some (take w (drop (i + 1 - w) xs)))"

definition rolling_apply :: "(fl list \<Rightarrow> fl) \<Rightarrow> fl list \<Rightarrow> int \<Rightarrow> error + fl list" where
  "rolling_apply stat xs window =
     (if window < 0 then Inl ValueError
      else Inr (map (\<lambda>i. case rolling_window xs (nat window) i of
                            None \<Rightarrow> NaN
                          | Some win \<Rightarrow> if list_all isfinite win then stat win else NaN)
                    [0..<length xs]))"

definition rolling_mean :: "fl list \<Rightarrow> int \<Rightarrow> error + fl list" where
  "rolling_mean xs window = rolling_apply np_mean xs window"

text \<open>The sample standard deviation (\<open>ddof = 1\<close>) of a window of finite cells.\<close>

fun the_num :: "fl \<Rightarrow> real" where
  "the_num (Num x) = x"
| "the_num _ = 0"

definition sample_std :: "fl list \<Rightarrow> fl" where
  "sample_std win =
     (let rs = map the_num win; n = length rs; m = sum_list rs / real n
      in if n \<le> 1 then NaN
         else Num (sqrt (sum_list (map (\<lambda>r. (r - m)\<^sup>2) rs) / real (n - 1))))"

definition rolling_std :: "fl list \<Rightarrow> int \<Rightarrow> error + fl list" where
  "rolling_std xs window = rolling_apply sample_std xs window"

text \<open>
  \<open>Series.ewm(span=s, adjust=False).mean()\<close>: a span below one raises \<open>ValueError\<close>.
  With \<open>\<alpha> = 2 / (s + 1)\<close> the first output is the first cell and each later output
  is \<open>(1 - \<alpha>) * previous + \<alpha> * cell\<close>. On a missing cell the previous average is
  carried forward and its weight decays (\<open>ignore_na = False\<close>).
\<close>

fun ewm_step :: "real \<Rightarrow> fl \<times> real \<Rightarrow> fl list \<Rightarrow> fl list" where
  "ewm_step \<alpha> (weighted, old_wt) [] = []"
| "ewm_step \<alpha> (weighted, old_wt) (cur # rest) =
     (if \<not> isnan weighted then
        (let old_wt = old_wt * (1 - \<alpha>) in
         if \<not> isnan cur then
           (let weighted =
                  (if fne weighted cur
                   then fdiv (fadd (fmul (Num old_wt) weighted) (fmul (Num \<alpha>) cur))
                             (Num (old_wt + \<alpha>))
                   else weighted)
            in weighted # ewm_step \<alpha> (weighted, 1) rest)
         else weighted # ewm_step \<alpha> (weighted, old_wt) rest)
      else if \<not> isnan cur then cur # ewm_step \<alpha> (cur, old_wt) rest
      else weighted # ewm_step \<alpha> (weighted, old_wt) rest)"

definition ewm_mean :: "fl list \<Rightarrow> int \<Rightarrow> error + fl list" where
  "ewm_mean xs s =
     (if s < 1 then Inl ValueError
      else case xs of
             [] \<Rightarrow> Inr []
           | x # rest \<Rightarrow> Inr (x # ewm_step (2 / (real_of_int s + 1)) (x, 1) rest))"

section \<open>The indicator library\<close>

text \<open>
  Each \<open>calculate_*\<close> function of \<open>utils.py\<close>, on arrays of cells. The result is the
  output array (or arrays), or the exception the function raises.
\<close>

subsection \<open>Moving averages, Bollinger bands, MACD\<close>

definition calculate_sma :: "fl list \<Rightarrow> int \<Rightarrow> error + fl list" where
  "calculate_sma prices period = rolling_mean prices period"

definition calculate_ema :: "fl list \<Rightarrow> int \<Rightarrow> error + fl list" where
  "calculate_ema prices period = ewm_mean prices period"

record bollinger =
  bb_middle :: "fl list"
  bb_upper :: "fl list"
  bb_lower :: "fl list"

definition calculate_bollinger_bands :: "fl list \<Rightarrow> int \<Rightarrow> fl \<Rightarrow> error + bollinger" where
  "calculate_bollinger_bands prices period std_dev =
     bindE (calculate_sma prices period) (\<lambda>sma.
     bindE (rolling_std prices period) (\<lambda>rolling_std.
     bindE (np_binop fadd sma (map (\<lambda>s. fmul s std_dev) rolling_std)) (\<lambda>upper_band.
     bindE (np_binop fsub sma (map (\<lambda>s. fmul s std_dev) rolling_std)) (\<lambda>lower_band.
     Inr \<lparr>bb_middle = sma, bb_upper = upper_band, bb_lower = lower_band\<rparr>))))"

record macd =
  macd_line :: "fl list"
  macd_signal :: "fl list"
  macd_histogram :: "fl list"

definition calculate_macd :: "fl list \<Rightarrow> int \<Rightarrow> int \<Rightarrow> int \<Rightarrow> error + macd" where
  "calculate_macd prices fast_period slow_period signal_period =
     bindE (calculate_ema prices fast_period) (\<lambda>fast_ema.
     bindE (calculate_ema prices slow_period) (\<lambda>slow_ema.
     bindE (np_binop fsub fast_ema slow_ema) (\<lambda>line.
     bindE (calculate_ema line signal_period) (\<lambda>signal.
     bindE (np_binop fsub line signal) (\<lambda>histogram.
     Inr \<lparr>macd_line = line, macd_signal = signal, macd_histogram = histogram\<rparr>)))))"

text \<open>\<open>calculate_wma\<close>: linear weights \<open>1 .. period\<close> over the trailing window.\<close>

definition calculate_wma :: "fl list \<Rightarrow> int \<Rightarrow> error + fl list" where
  "calculate_wma prices period =
     (let wma = zeros_like prices;
          weights = map fl_of_int [1..period];
          sum_weights = fl_of_int (sum_list [1..period])
      in for_each (py_range (period - 1) (len prices)) (\<lambda>i wma.
           bindE (np_binop fmul (py_slice prices (i - (period - 1)) (i + 1)) weights) (\<lambda>prod.
           py_set wma i (fdiv (np_sum prod) sum_weights))) wma)"

subsection \<open>RSI and ATR\<close>

text \<open>
  \<open>calculate_rsi\<close>. The loop of the smoothed averages and the loop of the index are
  kept apart, as in the source; \<open>rsi_averages\<close> returns \<open>avg_gains\<close> and
  \<open>avg_losses\<close> as they stand after the first loop.
\<close>

definition rsi_gains :: "fl list \<Rightarrow> fl list" where
  "rsi_gains prices =
     (let deltas = np_diff prices @ [Num 0]
      in map (\<lambda>d. if fgt d (Num 0) then d else Num 0) deltas)"

definition rsi_losses :: "fl list \<Rightarrow> fl list" where
  "rsi_losses prices =
     (let deltas = np_diff prices @ [Num 0]
      in map (\<lambda>d. if flt d (Num 0) then fneg d else Num 0) deltas)"

definition rsi_averages :: "fl list \<Rightarrow> int \<Rightarrow> error + fl list \<times> fl list" where
  "rsi_averages prices period =
     (let gains = rsi_gains prices;
          losses = rsi_losses prices;
          avg_gains = zeros_like prices;
          avg_losses = zeros_like prices
      in bindE (py_set avg_gains period (np_mean (py_slice_to gains period))) (\<lambda>avg_gains.
         bindE (py_set avg_losses period (np_mean (py_slice_to losses period))) (\<lambda>avg_losses.
         for_each (py_range (period + 1) (len prices)) (\<lambda>i (avg_gains, avg_losses).
           bindE (py_get avg_gains (i - 1)) (\<lambda>pg.
           bindE (py_get gains i) (\<lambda>g.
           bindE (py_set avg_gains i
                    (fdiv (fadd (fmul pg (fl_of_int (period - 1))) g) (fl_of_int period))) (\<lambda>avg_gains.
           bindE (py_get avg_losses (i - 1)) (\<lambda>pl.
           bindE (py_get losses i) (\<lambda>l.
           bindE (py_set avg_losses i
                    (fdiv (fadd (fmul pl (fl_of_int (period - 1))) l) (fl_of_int period))) (\<lambda>avg_losses.
           Inr (avg_gains, avg_losses)))))))) (avg_gains, avg_losses))))"

definition calculate_rsi :: "fl list \<Rightarrow> int \<Rightarrow> error + fl list" where
  "calculate_rsi prices period =
     bindE (rsi_averages prices period) (\<lambda>(avg_gains, avg_losses).
     bindE (for_each (py_range period (len prices)) (\<lambda>i (rs, rsi).
              bindE (py_get avg_losses i) (\<lambda>al.
              if feq al (Num 0) then
                bindE (py_set rsi i (Num 100)) (\<lambda>rsi. Inr (rs, rsi))
              else
                bindE (py_get avg_gains i) (\<lambda>ag.
                bindE (py_set rs i (fdiv ag al)) (\<lambda>rs.
                bindE (py_get rs i) (\<lambda>r.
                bindE (py_set rsi i (fsub (Num 100) (fdiv (Num 100) (fadd (Num 1) r)))) (\<lambda>rsi.
                Inr (rs, rsi)))))))
            (zeros_like prices, zeros_like prices)) (\<lambda>(rs, rsi).
     Inr rsi))"

text \<open>\<open>calculate_atr\<close>: the true range, seeded with its mean and Wilder-smoothed.\<close>

definition true_range :: "fl list \<Rightarrow> fl list \<Rightarrow> fl list \<Rightarrow> error + fl list" where
  "true_range high low close =
     bindE (np_binop fsub high low) (\<lambda>high_low.
     bindE (np_binop fsub (py_slice_from high 1) (py_slice_to close (- 1))) (\<lambda>hc.
     bindE (np_binop fsub (py_slice_from low 1) (py_slice_to close (- 1))) (\<lambda>lc.
     (let high_close_prev = Num 0 # map fabs hc;
          low_close_prev = Num 0 # map fabs lc
      in bindE (np_binop np_maximum high_close_prev low_close_prev) (\<lambda>m.
         np_binop np_maximum high_low m)))))"

definition calculate_atr :: "fl list \<Rightarrow> fl list \<Rightarrow> fl list \<Rightarrow> int \<Rightarrow> error + fl list" where
  "calculate_atr high low close period =
     bindE (true_range high low close) (\<lambda>tr.
     bindE (py_set (zeros_like close) (period - 1) (np_mean (py_slice_to tr period))) (\<lambda>atr.
     for_each (py_range period (len close)) (\<lambda>i atr.
       bindE (py_get atr (i - 1)) (\<lambda>prev.
       bindE (py_get tr i) (\<lambda>t.
       py_set atr i (fdiv (fadd (fmul prev (fl_of_int (period - 1))) t) (fl_of_int period)))))
       atr))"

subsection \<open>Stochastic oscillator and Williams %R\<close>

definition calculate_stochastic ::
  "fl list \<Rightarrow> fl list \<Rightarrow> fl list \<Rightarrow> int \<Rightarrow> int \<Rightarrow> int \<Rightarrow> error + fl list \<times> fl list" where
  "calculate_stochastic high low close k_period d_period slowing =
     bindE (for_each (py_range (k_period - 1) (len close)) (\<lambda>i k_raw.
              bindE (np_max (py_slice high (i - (k_period - 1)) (i + 1))) (\<lambda>highest_high.
              bindE (np_min (py_slice low (i - (k_period - 1)) (i + 1))) (\<lambda>lowest_low.
              if fne highest_high lowest_low then
                bindE (py_get close i) (\<lambda>c.
                py_set k_raw i
                  (fmul (fdiv (fsub c lowest_low) (fsub highest_high lowest_low)) (Num 100)))
              else py_set k_raw i (Num 50))))
            (zeros_like close)) (\<lambda>k_raw.
     bindE (if slowing > 1 then
              for_each (py_range (k_period + slowing - 2) (len close)) (\<lambda>i k.
                py_set k i (np_mean (py_slice k_raw (i - (slowing - 1)) (i + 1))))
                (zeros_like close)
            else Inr k_raw) (\<lambda>k.
     bindE (calculate_sma k d_period) (\<lambda>d.
     Inr (k, d))))"

definition calculate_williams_r :: "fl list \<Rightarrow> fl list \<Rightarrow> fl list \<Rightarrow> int \<Rightarrow> error + fl list" where
  "calculate_williams_r high low close period =
     for_each (py_range (period - 1) (len close)) (\<lambda>i williams_r.
       bindE (np_max (py_slice high (i - (period - 1)) (i + 1))) (\<lambda>highest_high.
       bindE (np_min (py_slice low (i - (period - 1)) (i + 1))) (\<lambda>lowest_low.
       if fne highest_high lowest_low then
         bindE (py_get close i) (\<lambda>c.
         py_set williams_r i
           (fmul (fdiv (fsub highest_high c) (fsub highest_high lowest_low)) (Num (- 100))))
       else py_set williams_r i (Num (- 50)))))
     (zeros_like close)"

subsection \<open>Volume weighted average price\<close>

text \<open>
  \<open>calculate_vwap\<close>: with \<open>period = None\<close> the cumulative sums from the start of the
  series, with the divisor replaced by \<open>1\<close> where the cumulative volume is not
  positive; otherwise the sums over the trailing window, with the price itself where
  the window's volume is not positive.
\<close>

definition calculate_vwap :: "fl list \<Rightarrow> fl list \<Rightarrow> int option \<Rightarrow> error + fl list" where
  "calculate_vwap prices volumes period =
     (let vwap = zeros_like prices
      in bindE (np_binop fmul prices volumes) (\<lambda>price_volume.
         case period of
           None \<Rightarrow>
             (let cumulative_pv = np_cumsum price_volume;
                  cumulative_volume = np_cumsum volumes;
                  volume_nonzero = map (\<lambda>v. if fgt v (Num 0) then v else Num 1) cumulative_volume
              in np_binop fdiv cumulative_pv volume_nonzero)
         | Some period \<Rightarrow>
             for_each (py_range (period - 1) (len prices)) (\<lambda>i vwap.
               if fgt (np_sum (py_slice volumes (i - (period - 1)) (i + 1))) (Num 0) then
                 py_set vwap i
                   (fdiv (np_sum (py_slice price_volume (i - (period - 1)) (i + 1)))
                         (np_sum (py_slice volumes (i - (period - 1)) (i + 1))))
               else bindE (py_get prices i) (\<lambda>p. py_set vwap i p))
             vwap))"

subsection \<open>Parabolic SAR\<close>

text \<open>
  The loop of \<open>calculate_parabolic_sar\<close> carries the array \<open>sar\<close>, the trend
  (\<open>1\<close> or \<open>-1\<close>), the extreme point and the acceleration factor.
\<close>

definition psar_step ::
  "fl list \<Rightarrow> fl list \<Rightarrow> fl \<Rightarrow> fl \<Rightarrow> fl \<Rightarrow> int \<Rightarrow> fl list \<times> int \<times> fl \<times> fl
     \<Rightarrow> error + fl list \<times> int \<times> fl \<times> fl" where
  "psar_step high low af_start af_increment af_max i st =
     (case st of (sar, trend, extreme_point, af) \<Rightarrow>
      bindE (py_get sar (i - 1)) (\<lambda>prev.
      bindE (py_set sar i (fadd prev (fmul af (fsub extreme_point prev)))) (\<lambda>sar.
      if trend = 1 then
        bindE (if i \<ge> 2 then
                 bindE (py_get sar i) (\<lambda>cur.
                 bindE (py_get low (i - 1)) (\<lambda>l1.
                 bindE (py_get low (i - 2)) (\<lambda>l2.
                 py_set sar i (py_min cur (py_min l1 l2)))))
               else
                 bindE (py_get sar i) (\<lambda>cur.
                 bindE (py_get low (i - 1)) (\<lambda>l1.
                 py_set sar i (py_min cur l1)))) (\<lambda>sar.
        bindE (py_get low i) (\<lambda>li.
        bindE (py_get sar i) (\<lambda>cur.
        if flt li cur then
          bindE (py_set sar i extreme_point) (\<lambda>sar.
          bindE (py_get low i) (\<lambda>li.
          Inr (sar, - 1, li, af_start)))
        else
          bindE (py_get high i) (\<lambda>hi.
          if fgt hi extreme_point then
            bindE (py_get high i) (\<lambda>hi.
            Inr (sar, trend, hi, py_min (fadd af af_increment) af_max))
          else Inr (sar, trend, extreme_point, af)))))
      else
        bindE (if i \<ge> 2 then
                 bindE (py_get sar i) (\<lambda>cur.
                 bindE (py_get high (i - 1)) (\<lambda>h1.
                 bindE (py_get high (i - 2)) (\<lambda>h2.
                 py_set sar i (py_max cur (py_max h1 h2)))))
               else
                 bindE (py_get sar i) (\<lambda>cur.
                 bindE (py_get high (i - 1)) (\<lambda>h1.
                 py_set sar i (py_max cur h1)))) (\<lambda>sar.
        bindE (py_get high i) (\<lambda>hi.
        bindE (py_get sar i) (\<lambda>cur.
        if fgt hi cur then
          bindE (py_set sar i extreme_point) (\<lambda>sar.
          bindE (py_get high i) (\<lambda>hi.
          Inr (sar, 1, hi, af_start)))
        else
          bindE (py_get low i) (\<lambda>li.
          if flt li extreme_point then
            bindE (py_get low i) (\<lambda>li.
            Inr (sar, trend, li, py_min (fadd af af_increment) af_max))
          else Inr (sar, trend, extreme_point, af))))))))"

definition calculate_parabolic_sar ::
  "fl list \<Rightarrow> fl list \<Rightarrow> fl list \<Rightarrow> fl \<Rightarrow> fl \<Rightarrow> fl \<Rightarrow> error + fl list" where
  "calculate_parabolic_sar high low close af_start af_increment af_max =
     (let sar = zeros_like close
      in if len close < 2 then Inr sar
         else
           bindE (py_get high 0) (\<lambda>extreme_point.
           bindE (py_get low 0) (\<lambda>l0.
           bindE (py_set sar 0 l0) (\<lambda>sar.
           bindE (for_each (py_range 1 (len close))
                    (psar_step high low af_start af_increment af_max)
                    (sar, 1, extreme_point, af_start)) (\<lambda>(sar, trend, extreme_point, af).
           Inr sar)))))"

subsection \<open>CCI, MFI and OBV\<close>

text \<open>The typical price \<open>(high + low + close) / 3\<close>.\<close>

definition typical_price :: "fl list \<Rightarrow> fl list \<Rightarrow> fl list \<Rightarrow> error + fl list" where
  "typical_price high low close =
     bindE (np_binop fadd high low) (\<lambda>hl.
     bindE (np_binop fadd hl close) (\<lambda>hlc.
     Inr (map (\<lambda>x. fdiv x (Num 3)) hlc)))"

definition calculate_cci :: "fl list \<Rightarrow> fl list \<Rightarrow> fl list \<Rightarrow> int \<Rightarrow> error + fl list" where
  "calculate_cci high low close period =
     bindE (typical_price high low close) (\<lambda>tp.
     bindE (for_each (py_range (period - 1) (len close)) (\<lambda>i tp_sma.
              py_set tp_sma i (np_mean (py_slice tp (i - (period - 1)) (i + 1))))
            (zeros_like close)) (\<lambda>tp_sma.
     for_each (py_range (period - 1) (len close)) (\<lambda>i cci.
       bindE (py_get tp_sma i) (\<lambda>m.
       (let mean_dev = np_mean (map (\<lambda>x. fabs (fsub x m))
                                  (py_slice tp (i - (period - 1)) (i + 1)))
        in if feq mean_dev (Num 0) then py_set cci i (Num 0)
           else
             bindE (py_get tp i) (\<lambda>t.
             bindE (py_get tp_sma i) (\<lambda>m.
             py_set cci i (fdiv (fsub t m) (fmul (Num (15 / 1000)) mean_dev)))))))
     (zeros_like close)))"

definition calculate_mfi ::
  "fl list \<Rightarrow> fl list \<Rightarrow> fl list \<Rightarrow> fl list \<Rightarrow> int \<Rightarrow> error + fl list" where
  "calculate_mfi high low close volume period =
     bindE (typical_price high low close) (\<lambda>tp.
     bindE (np_binop fmul tp volume) (\<lambda>money_flow.
     (let price_shift = (case tp of [] \<Rightarrow> [] | _ # _ \<Rightarrow> Num 0 # py_slice_to tp (- 1))
      in bindE (for_each (py_range 1 (len close)) (\<lambda>i (positive_flow, negative_flow).
                  bindE (py_get tp i) (\<lambda>t.
                  bindE (py_get price_shift i) (\<lambda>s.
                  if fgt t s then
                    bindE (py_get money_flow i) (\<lambda>m.
                    bindE (py_set positive_flow i m) (\<lambda>positive_flow.
                    Inr (positive_flow, negative_flow)))
                  else if flt t s then
                    bindE (py_get money_flow i) (\<lambda>m.
                    bindE (py_set negative_flow i m) (\<lambda>negative_flow.
                    Inr (positive_flow, negative_flow)))
                  else Inr (positive_flow, negative_flow))))
                (zeros_like money_flow, zeros_like money_flow)) (\<lambda>(positive_flow, negative_flow).
         for_each (py_range period (len close)) (\<lambda>i mfi.
           (let positive_sum = np_sum (py_slice positive_flow (i - (period - 1)) (i + 1));
                negative_sum = np_sum (py_slice negative_flow (i - (period - 1)) (i + 1))
            in if feq negative_sum (Num 0) then py_set mfi i (Num 100)
               else
                 (let money_ratio = fdiv positive_sum negative_sum
                  in py_set mfi i (fsub (Num 100) (fdiv (Num 100) (fadd (Num 1) money_ratio))))))
         (zeros_like close)))))"

definition calculate_obv :: "fl list \<Rightarrow> fl list \<Rightarrow> error + fl list" where
  "calculate_obv close volume =
     for_each (py_range 1 (len close)) (\<lambda>i obv.
       bindE (py_get close i) (\<lambda>c.
       bindE (py_get close (i - 1)) (\<lambda>cp.
       if fgt c cp then
         bindE (py_get obv (i - 1)) (\<lambda>prev.
         bindE (py_get volume i) (\<lambda>v.
         py_set obv i (fadd prev v)))
       else if flt c cp then
         bindE (py_get obv (i - 1)) (\<lambda>prev.
         bindE (py_get volume i) (\<lambda>v.
         py_set obv i (fsub prev v)))
       else
         bindE (py_get obv (i - 1)) (\<lambda>prev.
         py_set obv i prev))))
     (zeros_like close)"

subsection \<open>Average directional index\<close>

record adx_result =
  adx_adx :: "fl list"
  adx_plus_di :: "fl list"
  adx_minus_di :: "fl list"

text \<open>The first loop: true range and the directional movements.\<close>

definition adx_movement ::
  "fl list \<Rightarrow> fl list \<Rightarrow> fl list \<Rightarrow> error + fl list \<times> fl list \<times> fl list" where
  "adx_movement high low close =
     for_each (py_range 1 (len close)) (\<lambda>i (tr, plus_dm, minus_dm).
       bindE (py_get high i) (\<lambda>h.
       bindE (py_get high (i - 1)) (\<lambda>hp.
       bindE (py_get low (i - 1)) (\<lambda>lp.
       bindE (py_get low i) (\<lambda>l.
       (let high_diff = fsub h hp; low_diff = fsub lp l
        in bindE (py_set plus_dm i
                    (if fgt high_diff low_diff \<and> fgt high_diff (Num 0) then high_diff else Num 0))
             (\<lambda>plus_dm.
           bindE (py_set minus_dm i
                    (if fgt low_diff high_diff \<and> fgt low_diff (Num 0) then low_diff else Num 0))
             (\<lambda>minus_dm.
           bindE (py_get close (i - 1)) (\<lambda>cp.
           bindE (py_set tr i
                    (py_max (py_max (fsub h l) (fabs (fsub h cp))) (fabs (fsub l cp)))) (\<lambda>tr.
           Inr (tr, plus_dm, minus_dm)))))))))))
     (zeros_like close, zeros_like close, zeros_like close)"

text \<open>
  The second loop: Wilder's running sums \<open>s[i] = s[i-1] - s[i-1] / period + x[i]\<close> of
  the three arrays, seeded at index \<open>period\<close> with the sum of \<open>x[1 .. period]\<close>.
\<close>

definition wilder_sum :: "fl list \<Rightarrow> fl list \<Rightarrow> int \<Rightarrow> int \<Rightarrow> error + fl list" where
  "wilder_sum smoothed x period i =
     bindE (py_get smoothed (i - 1)) (\<lambda>prev.
     bindE (py_get x i) (\<lambda>xi.
     py_set smoothed i (fadd (fsub prev (fdiv prev (fl_of_int period))) xi)))"

definition adx_smoothing ::
  "fl list \<Rightarrow> fl list \<Rightarrow> fl list \<Rightarrow> fl list \<Rightarrow> int
     \<Rightarrow> error + fl list \<times> fl list \<times> fl list" where
  "adx_smoothing close tr plus_dm minus_dm period =
     bindE (py_set (zeros_like close) period (np_sum (py_slice tr 1 (period + 1)))) (\<lambda>smoothed_tr.
     bindE (py_set (zeros_like close) period (np_sum (py_slice plus_dm 1 (period + 1))))
       (\<lambda>smoothed_plus_dm.
     bindE (py_set (zeros_like close) period (np_sum (py_slice minus_dm 1 (period + 1))))
       (\<lambda>smoothed_minus_dm.
     for_each (py_range (period + 1) (len close))
       (\<lambda>i (smoothed_tr, smoothed_plus_dm, smoothed_minus_dm).
          bindE (wilder_sum smoothed_tr tr period i) (\<lambda>smoothed_tr.
          bindE (wilder_sum smoothed_plus_dm plus_dm period i) (\<lambda>smoothed_plus_dm.
          bindE (wilder_sum smoothed_minus_dm minus_dm period i) (\<lambda>smoothed_minus_dm.
          Inr (smoothed_tr, smoothed_plus_dm, smoothed_minus_dm)))))
       (smoothed_tr, smoothed_plus_dm, smoothed_minus_dm))))"

text \<open>The third and fourth loops: the directional indicators and \<open>DX\<close>.\<close>

definition adx_di ::
  "fl list \<Rightarrow> fl list \<Rightarrow> fl list \<Rightarrow> fl list \<Rightarrow> int \<Rightarrow> error + fl list \<times> fl list" where
  "adx_di close smoothed_tr smoothed_plus_dm smoothed_minus_dm period =
     for_each (py_range period (len close)) (\<lambda>i (plus_di, minus_di).
       bindE (py_get smoothed_tr i) (\<lambda>st.
       if feq st (Num 0) then
         bindE (py_set plus_di i (Num 0)) (\<lambda>plus_di.
         bindE (py_set minus_di i (Num 0)) (\<lambda>minus_di.
         Inr (plus_di, minus_di)))
       else
         bindE (py_get smoothed_plus_dm i) (\<lambda>sp.
         bindE (py_get smoothed_tr i) (\<lambda>st.
         bindE (py_set plus_di i (fdiv (fmul (Num 100) sp) st)) (\<lambda>plus_di.
         bindE (py_get smoothed_minus_dm i) (\<lambda>sm.
         bindE (py_get smoothed_tr i) (\<lambda>st.
         bindE (py_set minus_di i (fdiv (fmul (Num 100) sm) st)) (\<lambda>minus_di.
         Inr (plus_di, minus_di)))))))))
     (zeros_like close, zeros_like close)"

definition adx_dx :: "fl list \<Rightarrow> fl list \<Rightarrow> fl list \<Rightarrow> int \<Rightarrow> error + fl list" where
  "adx_dx close plus_di minus_di period =
     for_each (py_range period (len close)) (\<lambda>i dx.
       bindE (py_get plus_di i) (\<lambda>p.
       bindE (py_get minus_di i) (\<lambda>m.
       if feq (fadd p m) (Num 0) then py_set dx i (Num 0)
       else py_set dx i (fdiv (fmul (Num 100) (fabs (fsub p m))) (fadd p m)))))
     (zeros_like close)"

definition calculate_adx :: "fl list \<Rightarrow> fl list \<Rightarrow> fl list \<Rightarrow> int \<Rightarrow> error + adx_result" where
  "calculate_adx high low close period =
     bindE (adx_movement high low close) (\<lambda>(tr, plus_dm, minus_dm).
     bindE (adx_smoothing close tr plus_dm minus_dm period)
       (\<lambda>(smoothed_tr, smoothed_plus_dm, smoothed_minus_dm).
     bindE (adx_di close smoothed_tr smoothed_plus_dm smoothed_minus_dm period)
       (\<lambda>(plus_di, minus_di).
     bindE (adx_dx close plus_di minus_di period) (\<lambda>dx.
     bindE (if len close \<ge> 2 * period then
              bindE (py_set (zeros_like close) (2 * period - 1)
                       (np_mean (py_slice dx period (2 * period)))) (\<lambda>adx.
              for_each (py_range (2 * period) (len close)) (\<lambda>i adx.
                bindE (py_get adx (i - 1)) (\<lambda>prev.
                bindE (py_get dx i) (\<lambda>d.
                py_set adx i
                  (fdiv (fadd (fmul (fl_of_int (period - 1)) prev) d) (fl_of_int period)))))
              adx)
            else Inr (zeros_like close)) (\<lambda>adx.
     Inr \<lparr>adx_adx = adx, adx_plus_di = plus_di, adx_minus_di = minus_di\<rparr>)))))"

section \<open>Data frames\<close>

text \<open>
  A \<open>DataFrame\<close> of numeric columns: the number of rows and the columns in their
  order, each a name and an array of cells.
\<close>

record frame =
  nrows :: nat
  columns :: "(string \<times> fl list) list"

text \<open>In a well-formed frame every column has one cell per row.\<close>

definition wf_frame :: "frame \<Rightarrow> bool" where
  "wf_frame df = list_all (\<lambda>(name, col). length col = nrows df) (columns df)"

subsection \<open>Gap filling\<close>

text \<open>
  \<open>ffill\<close> replaces a missing cell by the last valid cell above it, \<open>bfill\<close> by the
  next valid cell below it; a cell with no such neighbour stays missing.
  \<open>fillna(v)\<close> replaces every missing cell by \<open>v\<close>.
\<close>

fun ffill_from :: "fl \<Rightarrow> fl list \<Rightarrow> fl list" where
  "ffill_from prev [] = []"
| "ffill_from prev (x # xs) =
     (if isnan x then prev # ffill_from prev xs else x # ffill_from x xs)"

definition ffill_col :: "fl list \<Rightarrow> fl list" where
  "ffill_col xs = ffill_from NaN xs"

fun bfill_col :: "fl list \<Rightarrow> fl list" where
  "bfill_col [] = []"
| "bfill_col (x # xs) =
     (let rest = bfill_col xs
      in (if isnan x then (case rest of [] \<Rightarrow> x | y # _ \<Rightarrow> y) else x) # rest)"

definition fillna_col :: "fl \<Rightarrow> fl list \<Rightarrow> fl list" where
  "fillna_col v xs = map (\<lambda>x. if isnan x then v else x) xs"

definition map_columns :: "(fl list \<Rightarrow> fl list) \<Rightarrow> frame \<Rightarrow> frame" where
  "map_columns f df = df\<lparr>columns := map (\<lambda>(name, col). (name, f col)) (columns df)\<rparr>"

definition df_ffill :: "frame \<Rightarrow> frame" where
  "df_ffill df = map_columns ffill_col df"

definition df_bfill :: "frame \<Rightarrow> frame" where
  "df_bfill df = map_columns bfill_col df"

definition df_fillna :: "frame \<Rightarrow> fl \<Rightarrow> frame" where
  "df_fillna df v = map_columns (fillna_col v) df"

text \<open>\<open>df.columns[df.isna().any()].tolist()\<close>: the names of the columns with a missing cell.\<close>

definition isna_any :: "frame \<Rightarrow> string list" where
  "isna_any df = map fst (filter (\<lambda>(name, col). list_ex isnan col) (columns df))"

text \<open>
  The last step of \<open>add_indicators\<close>: forward fill, then backward fill, and when a
  column still has a missing cell, fill the rest with zeros.
\<close>

definition gap_fill :: "frame \<Rightarrow> frame" where
  "gap_fill result_df =
     (let result_df = df_bfill (df_ffill result_df);
          nan_columns = isna_any result_df
      in if nan_columns \<noteq> [] then df_fillna result_df (Num 0) else result_df)"


definition no_nan :: "fl list \<Rightarrow> bool" where
  "no_nan xs = (\<not> list_ex isnan xs)"

definition frame_no_nan :: "frame \<Rightarrow> bool" where
  "frame_no_nan df = list_all (\<lambda>(name, col). no_nan col) (columns df)"

section \<open>The orchestrator\<close>

subsection \<open>Strings\<close>

text \<open>\<open>str.lower()\<close> on ASCII text, and the decimal text of an integer in an f-string.\<close>

definition lower_char :: "char \<Rightarrow> char" where
  "lower_char c =
     (case map_of (zip ''ABCDEFGHIJKLMNOPQRSTUVWXYZ'' ''abcdefghijklmnopqrstuvwxyz'') c of
        Some l \<Rightarrow> l
      | None \<Rightarrow> c)"

definition py_lower :: "string \<Rightarrow> string" where
  "py_lower s = map lower_char s"

definition digit_char :: "nat \<Rightarrow> char" where
  "digit_char d = ''0123456789'' ! d"

fun digits_of :: "nat \<Rightarrow> string" where
  "digits_of n = (if n < 10 then [digit_char n] else digits_of (n div 10) @ [digit_char (n mod 10)])"

declare digits_of.simps [simp del]

definition str_int :: "int \<Rightarrow> string" where
  "str_int i = (if i < 0 then CHR ''-'' # digits_of (nat (- i)) else digits_of (nat i))"

subsection \<open>Columns of a frame\<close>

text \<open>
  \<open>df[name].values\<close> raises \<open>KeyError\<close> for a missing column. \<open>df[name] = array\<close>
  replaces the column in place or appends it, and raises \<open>ValueError\<close> when the
  array has not one cell per row (every array that \<open>add_indicators\<close> stores is as
  long as the columns it was computed from).
\<close>

definition df_get :: "frame \<Rightarrow> string \<Rightarrow> error + fl list" where
  "df_get df name = (case map_of (columns df) name of None \<Rightarrow> Inl KeyError | Some col \<Rightarrow> Inr col)"

fun update_column :: "string \<Rightarrow> fl list \<Rightarrow> (string \<times> fl list) list \<Rightarrow> (string \<times> fl list) list" where
  "update_column name col [] = [(name, col)]"
| "update_column name col ((k, v) # cols) =
     (if k = name then (k, col) # cols else (k, v) # update_column name col cols)"

definition df_set :: "frame \<Rightarrow> string \<Rightarrow> fl list \<Rightarrow> error + frame" where
  "df_set df name col =
     (if length col = nrows df then Inr (df\<lparr>columns := update_column name col (columns df)\<rparr>)
      else Inl ValueError)"

subsection \<open>Indicator requests\<close>

text \<open>
  A request \<open>{'type': ..., 'params': {...}}\<close>. The type may be absent. The entries of
  \<open>params\<close> are kept by the type of their value: the integer ones (the periods) and
  the float ones (\<open>stdDev\<close>, \<open>afStart\<close>, \<open>afIncrement\<close>, \<open>afMax\<close>).
\<close>

record indicator =
  ind_type :: "string option"
  int_params :: "string \<rightharpoonup> int"
  float_params :: "string \<rightharpoonup> real"

definition get_int :: "(string \<rightharpoonup> int) \<Rightarrow> string \<Rightarrow> int \<Rightarrow> int" where
  "get_int params key dflt = (case params key of None \<Rightarrow> dflt | Some v \<Rightarrow> v)"

definition get_float :: "(string \<rightharpoonup> real) \<Rightarrow> string \<Rightarrow> real \<Rightarrow> fl" where
  "get_float params key dflt = (case params key of None \<Rightarrow> Num dflt | Some v \<Rightarrow> Num v)"

subsection \<open>The branches of \<open>add_indicators\<close>\<close>

text \<open>
  One definition for the body of each branch of the \<open>if\<close>/\<open>elif\<close> chain: the
  parameters with their defaults, the gate on the number of rows, the call of the
  library and the assignment of the output columns. A branch whose gate fails only
  prints a warning and leaves the frame as it is.
\<close>

definition add_sma :: "frame \<Rightarrow> (string \<rightharpoonup> int) \<Rightarrow> error + frame" where
  "add_sma result_df params =
     (let period = get_int params ''period'' 20
      in if int (nrows result_df) \<ge> period then
           bindE (df_get result_df ''close'') (\<lambda>close.
           bindE (calculate_sma close period) (\<lambda>sma.
           df_set result_df (''sma_'' @ str_int period) sma))
         else Inr result_df)"

definition add_ema :: "frame \<Rightarrow> (string \<rightharpoonup> int) \<Rightarrow> error + frame" where
  "add_ema result_df params =
     (let period = get_int params ''period'' 20
      in if int (nrows result_df) \<ge> period then
           bindE (df_get result_df ''close'') (\<lambda>close.
           bindE (calculate_ema close period) (\<lambda>ema.
           df_set result_df (''ema_'' @ str_int period) ema))
         else Inr result_df)"

definition add_bb :: "frame \<Rightarrow> (string \<rightharpoonup> int) \<Rightarrow> (string \<rightharpoonup> real) \<Rightarrow> error + frame" where
  "add_bb result_df params fparams =
     (let period = get_int params ''period'' 20;
          std_dev = get_float fparams ''stdDev'' 2
      in if int (nrows result_df) \<ge> period then
           bindE (df_get result_df ''close'') (\<lambda>close.
           bindE (calculate_bollinger_bands close period std_dev) (\<lambda>bb.
           bindE (df_set result_df (''bb_middle_'' @ str_int period) (bb_middle bb)) (\<lambda>result_df.
           bindE (df_set result_df (''bb_upper_'' @ str_int period) (bb_upper bb)) (\<lambda>result_df.
           df_set result_df (''bb_lower_'' @ str_int period) (bb_lower bb)))))
         else Inr result_df)"

definition add_macd :: "frame \<Rightarrow> (string \<rightharpoonup> int) \<Rightarrow> error + frame" where
  "add_macd result_df params =
     (let fast_period = get_int params ''fastPeriod'' 12;
          slow_period = get_int params ''slowPeriod'' 26;
          signal_period = get_int params ''signalPeriod'' 9
      in if int (nrows result_df) \<ge> slow_period + signal_period then
           bindE (df_get result_df ''close'') (\<lambda>close.
           bindE (calculate_macd close fast_period slow_period signal_period) (\<lambda>m.
           bindE (df_set result_df ''macd_line'' (macd_line m)) (\<lambda>result_df.
           bindE (df_set result_df ''macd_signal'' (macd_signal m)) (\<lambda>result_df.
           df_set result_df ''macd_histogram'' (macd_histogram m)))))
         else Inr result_df)"

definition add_rsi :: "frame \<Rightarrow> (string \<rightharpoonup> int) \<Rightarrow> error + frame" where
  "add_rsi result_df params =
     (let period = get_int params ''period'' 14
      in if int (nrows result_df) \<ge> period + 1 then
           bindE (df_get result_df ''close'') (\<lambda>close.
           bindE (calculate_rsi close period) (\<lambda>rsi.
           df_set result_df ''rsi'' rsi))
         else Inr result_df)"

definition add_atr :: "frame \<Rightarrow> (string \<rightharpoonup> int) \<Rightarrow> error + frame" where
  "add_atr result_df params =
     (let period = get_int params ''period'' 14
      in if int (nrows result_df) \<ge> period + 1 then
           bindE (df_get result_df ''high'') (\<lambda>high.
           bindE (df_get result_df ''low'') (\<lambda>low.
           bindE (df_get result_df ''close'') (\<lambda>close.
           bindE (calculate_atr high low close period) (\<lambda>atr.
           df_set result_df ''atr'' atr))))
         else Inr result_df)"

definition add_stochastic :: "frame \<Rightarrow> (string \<rightharpoonup> int) \<Rightarrow> error + frame" where
  "add_stochastic result_df params =
     (let k_period = get_int params ''kPeriod'' 14;
          d_period = get_int params ''dPeriod'' 3;
          slowing = get_int params ''slowing'' 1
      in if int (nrows result_df) \<ge> k_period + d_period then
           bindE (df_get result_df ''high'') (\<lambda>high.
           bindE (df_get result_df ''low'') (\<lambda>low.
           bindE (df_get result_df ''close'') (\<lambda>close.
           bindE (calculate_stochastic high low close k_period d_period slowing) (\<lambda>(k, d).
           bindE (df_set result_df ''stoch_k'' k) (\<lambda>result_df.
           df_set result_df ''stoch_d'' d)))))
         else Inr result_df)"

definition add_wma :: "frame \<Rightarrow> (string \<rightharpoonup> int) \<Rightarrow> error + frame" where
  "add_wma result_df params =
     (let period = get_int params ''period'' 20
      in if int (nrows result_df) \<ge> period then
           bindE (df_get result_df ''close'') (\<lambda>close.
           bindE (calculate_wma close period) (\<lambda>wma.
           df_set result_df (''wma_'' @ str_int period) wma))
         else Inr result_df)"

definition add_vwap :: "frame \<Rightarrow> (string \<rightharpoonup> int) \<Rightarrow> error + frame" where
  "add_vwap result_df params =
     (let period = params ''period''
      in if int (nrows result_df) > 0 then
           bindE (df_get result_df ''close'') (\<lambda>close.
           bindE (df_get result_df ''volume'') (\<lambda>volume.
           bindE (calculate_vwap close volume period) (\<lambda>vwap.
           df_set result_df ''vwap'' vwap)))
         else Inr result_df)"

definition add_psar :: "frame \<Rightarrow> (string \<rightharpoonup> real) \<Rightarrow> error + frame" where
  "add_psar result_df fparams =
     (let af_start = get_float fparams ''afStart'' (2 / 100);
          af_increment = get_float fparams ''afIncrement'' (2 / 100);
          af_max = get_float fparams ''afMax'' (2 / 10)
      in if int (nrows result_df) \<ge> 2 then
           bindE (df_get result_df ''high'') (\<lambda>high.
           bindE (df_get result_df ''low'') (\<lambda>low.
           bindE (df_get result_df ''close'') (\<lambda>close.
           bindE (calculate_parabolic_sar high low close af_start af_increment af_max) (\<lambda>psar.
           df_set result_df ''psar'' psar))))
         else Inr result_df)"

definition add_williams_r :: "frame \<Rightarrow> (string \<rightharpoonup> int) \<Rightarrow> error + frame" where
  "add_williams_r result_df params =
     (let period = get_int params ''period'' 14
      in if int (nrows result_df) \<ge> period then
           bindE (df_get result_df ''high'') (\<lambda>high.
           bindE (df_get result_df ''low'') (\<lambda>low.
           bindE (df_get result_df ''close'') (\<lambda>close.
           bindE (calculate_williams_r high low close period) (\<lambda>w.
           df_set result_df ''williams_r'' w))))
         else Inr result_df)"

definition add_cci :: "frame \<Rightarrow> (string \<rightharpoonup> int) \<Rightarrow> error + frame" where
  "add_cci result_df params =
     (let period = get_int params ''period'' 20
      in if int (nrows result_df) \<ge> period then
           bindE (df_get result_df ''high'') (\<lambda>high.
           bindE (df_get result_df ''low'') (\<lambda>low.
           bindE (df_get result_df ''close'') (\<lambda>close.
           bindE (calculate_cci high low close period) (\<lambda>cci.
           df_set result_df ''cci'' cci))))
         else Inr result_df)"

definition add_mfi :: "frame \<Rightarrow> (string \<rightharpoonup> int) \<Rightarrow> error + frame" where
  "add_mfi result_df params =
     (let period = get_int params ''period'' 14
      in if int (nrows result_df) \<ge> period + 1 then
           bindE (df_get result_df ''high'') (\<lambda>high.
           bindE (df_get result_df ''low'') (\<lambda>low.
           bindE (df_get result_df ''close'') (\<lambda>close.
           bindE (df_get result_df ''volume'') (\<lambda>volume.
           bindE (calculate_mfi high low close volume period) (\<lambda>mfi.
           df_set result_df ''mfi'' mfi)))))
         else Inr result_df)"

definition add_obv :: "frame \<Rightarrow> error + frame" where
  "add_obv result_df =
     (if int (nrows result_df) \<ge> 2 then
        bindE (df_get result_df ''close'') (\<lambda>close.
        bindE (df_get result_df ''volume'') (\<lambda>volume.
        bindE (calculate_obv close volume) (\<lambda>obv.
        df_set result_df ''obv'' obv)))
      else Inr result_df)"

definition add_adx :: "frame \<Rightarrow> (string \<rightharpoonup> int) \<Rightarrow> error + frame" where
  "add_adx result_df params =
     (let period = get_int params ''period'' 14
      in if int (nrows result_df) \<ge> 2 * period then
           bindE (df_get result_df ''high'') (\<lambda>high.
           bindE (df_get result_df ''low'') (\<lambda>low.
           bindE (df_get result_df ''close'') (\<lambda>close.
           bindE (calculate_adx high low close period) (\<lambda>adx_result.
           bindE (df_set result_df ''adx'' (adx_adx adx_result)) (\<lambda>result_df.
           bindE (df_set result_df ''plus_di'' (adx_plus_di adx_result)) (\<lambda>result_df.
           df_set result_df ''minus_di'' (adx_minus_di adx_result)))))))
         else Inr result_df)"

subsection \<open>\<open>add_indicators\<close>\<close>

text \<open>
  The body of the loop over the requests: the type in lower case selects the branch;
  an unknown type selects none and leaves the frame as it is. There is no
  \<open>try\<close>/\<open>except\<close> in \<open>add_indicators\<close>: an exception of a branch ends the call.
\<close>

definition process_indicator :: "indicator \<Rightarrow> frame \<Rightarrow> error + frame" where
  "process_indicator indicator result_df =
     (let indicator_type = py_lower (case ind_type indicator of None \<Rightarrow> [] | Some t \<Rightarrow> t);
          params = int_params indicator;
          fparams = float_params indicator
      in if indicator_type \<in> set [''sma'', ''ma''] then add_sma result_df params
         else if indicator_type \<in> set [''ema''] then add_ema result_df params
         else if indicator_type \<in> set [''bb'', ''bollingerbands''] then add_bb result_df params fparams
         else if indicator_type \<in> set [''macd''] then add_macd result_df params
         else if indicator_type \<in> set [''rsi''] then add_rsi result_df params
         else if indicator_type \<in> set [''atr''] then add_atr result_df params
         else if indicator_type \<in> set [''stochastic'', ''stoch'', ''stochasticoscillator'']
           then add_stochastic result_df params
         else if indicator_type \<in> set [''wma''] then add_wma result_df params
         else if indicator_type \<in> set [''vwap''] then add_vwap result_df params
         else if indicator_type \<in> set [''psar'', ''parabolicsar''] then add_psar result_df fparams
         else if indicator_type \<in> set [''williamsr'', ''williams%r'', ''percentr'']
           then add_williams_r result_df params
         else if indicator_type \<in> set [''cci''] then add_cci result_df params
         else if indicator_type \<in> set [''mfi''] then add_mfi result_df params
         else if indicator_type \<in> set [''obv''] then add_obv result_df
         else if indicator_type \<in> set [''adx''] then add_adx result_df params
         else Inr result_df)"

definition add_indicators :: "frame \<Rightarrow> indicator list \<Rightarrow> error + frame" where
  "add_indicators df indicators =
     bindE (for_each indicators process_indicator df) (\<lambda>result_df.
     Inr (gap_fill result_df))"

section \<open>Predicates used in the statements\<close>







text \<open>
  The exponential moving average of a series of numbers: the recurrence
  \<open>EMA[i] = (1 - \<alpha>) * EMA[i-1] + \<alpha> * x[i]\<close> with \<open>\<alpha> = 2 / (period + 1)\<close>, seeded
  with the first value.
\<close>

fun ema_from :: "real \<Rightarrow> real \<Rightarrow> real list \<Rightarrow> real list" where
  "ema_from \<alpha> prev [] = []"
| "ema_from \<alpha> prev (x # xs) =
     ((1 - \<alpha>) * prev + \<alpha> * x) # ema_from \<alpha> ((1 - \<alpha>) * prev + \<alpha> * x) xs"

definition ema_all :: "int \<Rightarrow> real list \<Rightarrow> real list" where
  "ema_all period xs =
     (case xs of [] \<Rightarrow> [] | x # rest \<Rightarrow> x # ema_from (2 / (real_of_int period + 1)) x rest)"

text \<open>A strictly increasing series of 40 closes.\<close>

definition rising_closes :: "real list" where
  "rising_closes =
     [0, 351000, 351323, 351526, 351795, 351996, 352002, 352100, 352429, 352617,
      352742, 352774, 352918, 352984, 353005, 353309, 353542, 353561, 353857, 353956,
      354289, 354318, 354406, 354645, 354780, 354831, 355169, 355192, 355195, 355198,
      355221, 355284, 355407, 355610, 355913, 355985, 356117, 356325, 356625, 356682]"

section \<open>Notions used in the statements about the orchestrator\<close>




text \<open>A frame of five bars and a request with integer parameters, for the examples.\<close>

definition sample_bars :: frame where
  "sample_bars = \<lparr>nrows = 5, columns =
     [(''open'', map Num [10, 11, 10, 12, 13]),
      (''high'', map Num [12, 12, 12, 13, 14]),
      (''low'', map Num [9, 10, 9, 11, 12]),
      (''close'', map Num [11, 10, 12, 13, 12]),
      (''volume'', map Num [100, 0, 50, 20, 30])]\<rparr>"

definition request :: "string \<Rightarrow> (string \<times> int) list \<Rightarrow> indicator" where
  "request t ps = \<lparr>ind_type = Some t, int_params = map_of ps, float_params = Map.empty\<rparr>"

section \<open>Facts about the array operations\<close>

lemma fold_fadd_Num:
  "fold (\<lambda>x acc. fadd acc x) (map Num rs) (Num a) = Num (a + sum_list rs)"
  by (induction rs arbitrary: a) (simp_all add: add.assoc)

lemma np_sum_Num: "np_sum (map Num rs) = Num (sum_list rs)"
  by (simp add: np_sum_def fold_fadd_Num)

lemma np_mean_Num:
  "rs \<noteq> [] \<Longrightarrow> np_mean (map Num rs) = Num (sum_list rs / real (length rs))"
  by (simp add: np_mean_def np_sum_Num)

lemma list_all_isfinite_Num: "list_all isfinite (map Num rs)"
  by (simp add: list_all_iff)

lemma rolling_mean_Num:
  assumes "0 \<le> w"
  shows "rolling_mean (map Num rs) w =
     Inr (map (\<lambda>i. if w = 0 \<or> int i + 1 < w then NaN
                    else Num (sum_list (take (nat w) (drop (i + 1 - nat w) rs)) / real_of_int w))
              [0..<length rs])"
  using assms
  by (auto simp: rolling_mean_def rolling_apply_def rolling_window_def
      take_map drop_map list_all_isfinite_Num np_mean_Num min_def)

lemma filter_upt_less:
  "k \<le> n \<Longrightarrow> filter (\<lambda>i. i < k) [0..<n] = [0..<k]"
  by (induction n) (auto simp: le_Suc_eq)

subsection \<open>Exceptions, indexing and loops\<close>

lemma bindE_Inr [simp]: "bindE (Inr x) f = f x"
  by (simp add: bindE_def)

lemma bindE_Inl [simp]: "bindE (Inl e) f = Inl e"
  by (simp add: bindE_def)




lemma py_range_Cons: "a < b \<Longrightarrow> py_range a b = a # py_range (a + 1) b"
  by (simp add: py_range_def upto_rec1)

lemma py_range_Nil: "b \<le> a \<Longrightarrow> py_range a b = []"
  by (simp add: py_range_def)




subsection \<open>Slices, maxima and minima of numeric arrays\<close>








subsection \<open>Elementwise products and cumulative sums of numeric arrays\<close>

lemma np_binop_same: "length xs = length ys \<Longrightarrow> np_binop f xs ys = Inr (map2 f xs ys)"
  by (simp add: np_binop_def)




text \<open>The definitions that evaluate a call on concrete arrays.\<close>

lemmas py_eval = py_range_Cons py_range_Nil upto_rec1 upto_empty Let_def py_index_def py_get_def py_set_def slice_bound_def
  py_slice_def py_slice_to_def py_slice_from_def len_def zeros_like_def np_binop_def np_sum_def
  np_mean_def np_cumsum_def np_diff_def fsub_def fgt_def feq_def fne_def fl_of_int_def
  np_maximum_def np_minimum_def py_max_def py_min_def inf_of_sign_def

section \<open>Simple moving average\<close>

text \<open>
  Claim C4. For every period \<open>P \<ge> 1\<close> and every numeric close series of length
  \<open>N \<ge> P\<close>, \<open>calculate_sma\<close> returns an array of length \<open>N\<close> that is undefined
  (\<open>NaN\<close>) at exactly the indices \<open>0 .. P-2\<close>, so at exactly \<open>P - 1\<close> indices, and
  that holds the arithmetic mean of the trailing \<open>P\<close> closes at every index
  \<open>\<ge> P - 1\<close>.
\<close>

theorem sma_warmup_and_mean:
  assumes "1 \<le> P" and "P \<le> int (length closes)"
  shows "\<exists>out. calculate_sma (map Num closes) P = Inr out
           \<and> length out = length closes
           \<and> (\<forall>i < length closes. int i < P - 1 \<longrightarrow> out ! i = NaN)
           \<and> (\<forall>i < length closes. P - 1 \<le> int i \<longrightarrow>
                 out ! i = Num (sum_list (take (nat P) (drop (i + 1 - nat P) closes)) / real_of_int P))
           \<and> length (filter isnan out) = nat (P - 1)"
proof -
  let ?f = "\<lambda>i. if P = 0 \<or> int i + 1 < P then NaN
                else Num (sum_list (take (nat P) (drop (i + 1 - nat P) closes)) / real_of_int P)"
  have eq: "calculate_sma (map Num closes) P = Inr (map ?f [0..<length closes])"
    using assms by (simp add: calculate_sma_def rolling_mean_Num)
  have nan: "isnan (?f i) \<longleftrightarrow> i < nat (P - 1)" for i
    using assms by auto
  have "filter isnan (map ?f [0..<length closes]) =
        map ?f (filter (\<lambda>i. i < nat (P - 1)) [0..<length closes])"
    unfolding filter_map comp_def nan ..
  also have "\<dots> = map ?f [0..<nat (P - 1)]"
    using assms by (subst filter_upt_less) auto
  finally have cnt: "length (filter isnan (map ?f [0..<length closes])) = nat (P - 1)"
    by simp
  show ?thesis
    unfolding eq using assms cnt by auto
qed

theorem sma_warmup_and_mean_witness:
  "(1::int) \<le> 2 \<and> 2 \<le> int (length [1, 2, 3, 6 :: real])
   \<and> calculate_sma (map Num [1, 2, 3, 6]) 2 = Inr [NaN, Num (3 / 2), Num (5 / 2), Num (9 / 2)]"
proof -
  from sma_warmup_and_mean [of 2 "[1, 2, 3, 6]"]
  obtain out where out: "calculate_sma (map Num [1, 2, 3, 6]) 2 = Inr out"
    and n: "length out = 4"
    and warm: "\<forall>i < 4. int i < 1 \<longrightarrow> out ! i = NaN"
    and mean: "\<forall>i < 4. 1 \<le> int i \<longrightarrow>
       out ! i = Num (sum_list (take 2 (drop (i + 1 - 2) [1, 2, 3, 6 :: real])) / 2)"
    by auto
  have "out ! 0 = NaN" using warm by simp
  moreover have "out ! 1 = Num (3 / 2)" using mean [rule_format, of 1] by simp
  moreover have "out ! 2 = Num (5 / 2)" using mean [rule_format, of 2] by simp
  moreover have "out ! 3 = Num (9 / 2)" using mean [rule_format, of 3] by (simp add: numeral_3_eq_3)
  ultimately have "out = [NaN, Num (3 / 2), Num (5 / 2), Num (9 / 2)]"
    using n by (auto simp: list_eq_iff_nth_eq less_Suc_eq numeral_eq_Suc)
  with out show ?thesis by simp
qed

section \<open>Gap filling is idempotent\<close>

lemma ffill_from_no_nan: "no_nan xs \<Longrightarrow> ffill_from l xs = xs"
  by (induction xs arbitrary: l) (auto simp: no_nan_def)

lemma bfill_col_no_nan: "no_nan xs \<Longrightarrow> bfill_col xs = xs"
  by (induction xs) (auto simp: no_nan_def Let_def)

lemma fillna_col_no_nan: "no_nan xs \<Longrightarrow> fillna_col v xs = xs"
  by (induction xs) (auto simp: no_nan_def fillna_col_def)

lemma no_nan_fillna: "\<not> isnan v \<Longrightarrow> no_nan (fillna_col v xs)"
  by (induction xs) (auto simp: no_nan_def fillna_col_def)

lemma map_columns_id:
  assumes "list_all (\<lambda>(name, col). f col = col) (columns df)"
  shows "map_columns f df = df"
proof -
  have "map (\<lambda>(name, col). (name, f col)) (columns df) = columns df"
    by (rule map_idI) (use assms in \<open>auto simp: list_all_iff\<close>)
  then show ?thesis by (simp add: map_columns_def)
qed

lemma frame_no_nan_fillna: "frame_no_nan (df_fillna df (Num 0))"
  by (auto simp: frame_no_nan_def df_fillna_def map_columns_def list_all_iff no_nan_fillna)

lemma isna_any_empty: "isna_any df = [] \<longleftrightarrow> frame_no_nan df"
  by (auto simp: isna_any_def frame_no_nan_def filter_empty_conv list_all_iff no_nan_def)

lemma gap_fill_no_nan: "frame_no_nan (gap_fill df)"
  by (simp add: gap_fill_def Let_def frame_no_nan_fillna isna_any_empty)

lemma gap_fill_id:
  assumes "frame_no_nan df"
  shows "gap_fill df = df"
proof -
  have f: "df_ffill df = df"
    unfolding df_ffill_def
    by (rule map_columns_id)
      (use assms in \<open>auto simp: frame_no_nan_def list_all_iff ffill_col_def ffill_from_no_nan\<close>)
  have b: "df_bfill df = df"
    unfolding df_bfill_def
    by (rule map_columns_id)
      (use assms in \<open>auto simp: frame_no_nan_def list_all_iff bfill_col_no_nan\<close>)
  show ?thesis
    using assms by (simp add: gap_fill_def f b isna_any_empty)
qed

text \<open>The code's conditional zero fill is the plain sequence of the three fills.\<close>

lemma gap_fill_sequence: "gap_fill df = df_fillna (df_bfill (df_ffill df)) (Num 0)"
proof (cases "frame_no_nan (df_bfill (df_ffill df))")
  case True
  have "df_fillna (df_bfill (df_ffill df)) (Num 0) = df_bfill (df_ffill df)"
    unfolding df_fillna_def
    by (rule map_columns_id)
      (use True in \<open>auto simp: frame_no_nan_def list_all_iff fillna_col_no_nan\<close>)
  with True show ?thesis by (simp add: gap_fill_def isna_any_empty)
next
  case False
  then show ?thesis by (simp add: gap_fill_def isna_any_empty)
qed



text \<open>
  Claim C6. The gap-filling pass is idempotent: for every frame, forward fill, then
  backward fill, then zero fill, applied twice, gives exactly the frame that one
  application gives. This holds of the pass as \<open>add_indicators\<close> runs it
  (\<open>gap_fill\<close>) and of the plain sequence of the three fills.
\<close>

theorem gap_fill_idempotent:
  "gap_fill (gap_fill df) = gap_fill df
   \<and> df_fillna (df_bfill (df_ffill (df_fillna (df_bfill (df_ffill df)) (Num 0)))) (Num 0)
       = df_fillna (df_bfill (df_ffill df)) (Num 0)"
proof -
  have "gap_fill (gap_fill df) = gap_fill df"
    by (rule gap_fill_id) (rule gap_fill_no_nan)
  then show ?thesis
    by (simp add: gap_fill_sequence)
qed

theorem gap_fill_idempotent_witness:
  "gap_fill (gap_fill \<lparr>nrows = 4, columns = [(''sma_3'', [NaN, NaN, Num 2, Num 3]),
                                             (''x'', [Num 1, NaN, NaN, Num 5]),
                                             (''y'', [NaN, NaN, NaN, NaN])]\<rparr>)
   = \<lparr>nrows = 4, columns = [(''sma_3'', [Num 2, Num 2, Num 2, Num 3]),
                            (''x'', [Num 1, Num 1, Num 1, Num 5]),
                            (''y'', [Num 0, Num 0, Num 0, Num 0])]\<rparr>"
  using gap_fill_idempotent [of "\<lparr>nrows = 4, columns = [(''sma_3'', [NaN, NaN, Num 2, Num 3]),
                                             (''x'', [Num 1, NaN, NaN, Num 5]),
                                             (''y'', [NaN, NaN, NaN, NaN])]\<rparr>"]
  by (simp add: gap_fill_def df_bfill_def df_ffill_def df_fillna_def map_columns_def
      isna_any_def ffill_col_def fillna_col_def)

section \<open>Relative strength index\<close>


























section \<open>Williams %R\<close>







section \<open>Volume weighted average price\<close>







section \<open>EMA and MACD\<close>

lemma ewm_step_Num:
  "ewm_step \<alpha> (Num w, 1) (map Num xs) = map Num (ema_from \<alpha> w xs)"
proof (induction xs arbitrary: w)
  case Nil
  then show ?case by simp
next
  case (Cons x xs)
  have "w = (1 - \<alpha>) * w + \<alpha> * w" by (simp add: algebra_simps)
  then show ?case
    by (auto simp: Cons.IH fne_def feq_def Let_def)
qed

lemma calculate_ema_Num:
  "1 \<le> period \<Longrightarrow> calculate_ema (map Num xs) period = Inr (map Num (ema_all period xs))"
  by (cases xs) (simp_all add: calculate_ema_def ewm_mean_def ema_all_def ewm_step_Num)

lemma length_ema_from [simp]: "length (ema_from \<alpha> w xs) = length xs"
  by (induction xs arbitrary: w) simp_all

lemma length_ema_all [simp]: "length (ema_all period xs) = length xs"
  by (cases xs) (simp_all add: ema_all_def)

lemma map2_fsub_Num: "map2 fsub (map Num xs) (map Num ys) = map Num (map2 (-) xs ys)"
  by (auto simp: zip_map_map fsub_def)

lemma calculate_macd_Num:
  assumes "1 \<le> fast" "1 \<le> slow" "1 \<le> signal"
  shows "\<exists>m. calculate_macd (map Num closes) fast slow signal = Inr m
           \<and> macd_line m = map Num (map2 (-) (ema_all fast closes) (ema_all slow closes))"
proof -
  define line where "line = map2 (-) (ema_all fast closes) (ema_all slow closes)"
  have l: "np_binop fsub (map Num (ema_all fast closes)) (map Num (ema_all slow closes)) =
             Inr (map Num line)"
    unfolding line_def by (subst np_binop_same) (simp_all only: map2_fsub_Num length_map length_ema_all)
  have h: "np_binop fsub (map Num line) (map Num (ema_all signal line)) =
             Inr (map Num (map2 (-) line (ema_all signal line)))"
    by (subst np_binop_same) (simp_all only: map2_fsub_Num length_map length_ema_all)
  show ?thesis
    unfolding calculate_macd_def line_def [symmetric]
    by (simp only: calculate_ema_Num [OF assms(1)] calculate_ema_Num [OF assms(2)]
        calculate_ema_Num [OF assms(3)] bindE_Inr l h) simp
qed

lemma ema_gap:
  assumes "0 < b" "b < a" "a \<le> 1"
  shows "s \<le> f \<Longrightarrow> f \<le> x0 \<Longrightarrow> sorted_wrt (<) (x0 # xs) \<Longrightarrow>
         \<forall>i < length xs. ema_from b s xs ! i < ema_from a f xs ! i"
proof (induction xs arbitrary: s f x0)
  case Nil
  then show ?case by simp
next
  case (Cons x xs)
  let ?f = "(1 - a) * f + a * x" and ?s = "(1 - b) * s + b * x"
  from Cons.prems have x: "x0 < x" and srt: "sorted_wrt (<) (x # xs)" by auto
  have "0 \<le> (1 - a) * (f - s)"
    using assms Cons.prems by (intro mult_nonneg_nonneg) auto
  moreover have "0 < (a - b) * (x - s)"
    using assms Cons.prems x by (intro mult_pos_pos) auto
  moreover have "?f - ?s = (1 - a) * (f - s) + (a - b) * (x - s)"
    by (simp add: algebra_simps)
  ultimately have lt: "?s < ?f" by linarith
  have "(1 - a) * (x - f) \<ge> 0"
    using assms Cons.prems x by (intro mult_nonneg_nonneg) auto
  moreover have "x - ?f = (1 - a) * (x - f)"
    by (simp add: algebra_simps)
  ultimately have le: "?f \<le> x" by linarith
  from Cons.IH [of ?s ?f x] lt le srt
  have IH: "\<forall>i < length xs. ema_from b ?s xs ! i < ema_from a ?f xs ! i" by simp
  show ?case
  proof (intro allI impI)
    fix i assume "i < length (x # xs)"
    then show "ema_from b s (x # xs) ! i < ema_from a f (x # xs) ! i"
      using lt IH by (cases i) auto
  qed
qed

lemma macd_line_values:
  assumes "1 \<le> fast" "fast < slow" and srt: "sorted_wrt (<) closes" and i: "i < length closes"
  shows "if i = 0 then map2 (-) (ema_all fast closes) (ema_all slow closes) ! i = 0
         else 0 < map2 (-) (ema_all fast closes) (ema_all slow closes) ! i"
proof (cases closes)
  case Nil
  with i show ?thesis by simp
next
  case (Cons x rest)
  let ?a = "2 / (real_of_int fast + 1)" and ?b = "2 / (real_of_int slow + 1)"
  have ab: "0 < ?b" "?b < ?a" "?a \<le> 1"
    using assms(1,2) by (simp_all add: frac_less2)
  from ema_gap [OF ab, of x x x rest] srt Cons
  have gap: "\<forall>j < length rest. ema_from ?b x rest ! j < ema_from ?a x rest ! j"
    by simp
  show ?thesis
  proof (cases i)
    case 0
    then show ?thesis using Cons by (simp add: ema_all_def)
  next
    case (Suc j)
    with i Cons have "j < length rest" by simp
    with gap Suc Cons show ?thesis by (simp add: ema_all_def)
  qed
qed

text \<open>
  Claim C9, as stated, fails: on a strictly increasing series of 40 closes the MACD
  line of \<open>calculate_macd\<close> with periods 12, 26 and 9 is positive but falls at every
  step from index 35 to index 39.
\<close>

theorem macd_line_not_increasing_counterexample:
  "sorted_wrt (<) rising_closes \<and> length rising_closes = 40
   \<and> (case calculate_macd (map Num rising_closes) 12 26 9 of
         Inl e \<Rightarrow> False
       | Inr m \<Rightarrow> drop 35 (macd_line m) = [Num 23548, Num 21952, Num 20468, Num 19096, Num 17808])"
  by (simp add: rising_closes_def calculate_macd_def calculate_ema_def ewm_mean_def np_binop_def
      fne_def feq_def fsub_def)

text \<open>
  Claim C9, amended. For every strictly increasing close series (of 40 bars or of any
  other length), \<open>calculate_macd\<close> with periods 12, 26 and 9 returns a MACD line, the
  fast EMA minus the slow EMA, both seeded with the first close, that is \<open>0\<close> at
  index 0 and strictly positive at every later index.
\<close>

theorem macd_line_positive:
  assumes "sorted_wrt (<) closes"
  shows "\<exists>m. calculate_macd (map Num closes) 12 26 9 = Inr m
           \<and> length (macd_line m) = length closes
           \<and> (\<forall>i < length closes. \<exists>r. macd_line m ! i = Num r \<and> (if i = 0 then r = 0 else 0 < r))"
proof -
  from calculate_macd_Num [of 12 26 9 closes] obtain m where
    m: "calculate_macd (map Num closes) 12 26 9 = Inr m"
      "macd_line m = map Num (map2 (-) (ema_all 12 closes) (ema_all 26 closes))"
    by auto
  have len: "length (macd_line m) = length closes"
    by (simp add: m(2))
  have "\<exists>r. macd_line m ! i = Num r \<and> (if i = 0 then r = 0 else 0 < r)" if "i < length closes" for i
  proof (cases "i = 0")
    case True
    with macd_line_values [of 12 26 closes i] assms that show ?thesis
      by (simp add: m(2))
  next
    case False
    with macd_line_values [of 12 26 closes i] assms that show ?thesis
      by (simp add: m(2))
  qed
  with m(1) len show ?thesis by blast
qed

theorem macd_line_positive_witness:
  "sorted_wrt (<) [1, 2, 4 :: real]
   \<and> (case calculate_macd (map Num [1, 2, 4]) 12 26 9 of
         Inl e \<Rightarrow> False
       | Inr m \<Rightarrow> macd_line m = [Num 0, Num (28 / 351), Num (37072 / 123201)])"
proof -
  have ev: "case calculate_macd (map Num [1, 2, 4]) 12 26 9 of
         Inl e \<Rightarrow> False
       | Inr m \<Rightarrow> macd_line m = [Num 0, Num (28 / 351), Num (37072 / 123201)]"
    by (simp add: calculate_macd_def calculate_ema_def ewm_mean_def np_binop_def
        fne_def feq_def fsub_def)
  have "sorted_wrt (<) [1, 2, 4 :: real]" by simp
  from macd_line_positive [OF this]
  have "\<exists>m. calculate_macd (map Num [1, 2, 4]) 12 26 9 = Inr m"
    by blast
  with ev show ?thesis by simp
qed

section \<open>Warm-up regions\<close>









lemma length_ffill_from [simp]: "length (ffill_from l xs) = length xs"
  by (induction xs arbitrary: l) simp_all

lemma length_bfill_col [simp]: "length (bfill_col xs) = length xs"
  by (induction xs) (simp_all add: Let_def)







section \<open>The sufficiency gate\<close>




lemma df_set_nrows: "df_set df name col = Inr df' \<Longrightarrow> nrows df' = nrows df"
  by (auto simp: df_set_def split: if_splits)































lemma for_each_append:
  "for_each (xs @ ys) body s = bindE (for_each xs body s) (for_each ys body)"
proof (induction xs arbitrary: s)
  case Nil
  then show ?case by simp
next
  case (Cons x xs)
  then show ?case by (cases "body x s") simp_all
qed

lemmas orchestrator_eval = add_indicators_def process_indicator_def py_lower_def lower_char_def
  get_int_def get_float_def df_get_def df_set_def str_int_def digits_of.simps digit_char_def
  request_def sample_bars_def gap_fill_def df_bfill_def df_ffill_def df_fillna_def map_columns_def
  isna_any_def ffill_col_def fillna_col_def



section \<open>An exception in one indicator ends the call\<close>

lemma add_indicators_raises:
  assumes "for_each before process_indicator df = Inr df'" and "process_indicator ind df' = Inl e"
  shows "add_indicators df (before @ ind # after) = Inl e"
  using assms by (simp add: add_indicators_def for_each_append)

text \<open>
  Claim C1 does not hold of \<open>add_indicators\<close>: the loop has no exception handler. On
  the five sample bars, a request for an EMA of period 0 passes its gate and raises
  \<open>ValueError\<close> in \<open>ewm\<close>; the call ends with that exception and the SMA requested
  after it is never computed, although the same SMA request alone succeeds.
\<close>

theorem failing_indicator_aborts:
  "add_indicators sample_bars [request ''ema'' [(''period'', 0)], request ''sma'' [(''period'', 2)]]
     = Inl ValueError
   \<and> add_indicators sample_bars [request ''sma'' [(''period'', 2)]]
     = Inr (sample_bars\<lparr>columns := columns sample_bars @
           [(''sma_2'', [Num (21 / 2), Num (21 / 2), Num 11, Num (25 / 2), Num (25 / 2)])]\<rparr>)"
  by (simp add: orchestrator_eval add_ema_def add_sma_def calculate_ema_def ewm_mean_def
      calculate_sma_def rolling_mean_def rolling_apply_def rolling_window_def py_eval)

section \<open>Column names\<close>

subsection \<open>The decimal text of an integer determines the integer\<close>










subsection \<open>Columns written by two requests\<close>

lemma map_of_update_column:
  "map_of (update_column k v cols) k' = (if k' = k then Some v else map_of cols k')"
  by (induction cols) auto


lemma df_get_df_set:
  "df_set df k v = Inr df' \<Longrightarrow> df_get df' k' = (if k' = k then Inr v else df_get df k')"
  by (auto simp: df_set_def df_get_def map_of_update_column split: if_splits)




lemma bindE_assoc: "bindE (bindE m f) g = bindE m (\<lambda>x. bindE (f x) g)"
  by (cases m) simp_all





lemma length_ewm_step [simp]: "length (ewm_step \<alpha> st xs) = length xs"
  by (induction \<alpha> st xs rule: ewm_step.induct) (simp_all add: Let_def)













end
